theory Spec2Isabelle
  imports Complex_Main
begin

section \<open>Pittsburgh Water HUD: the conditions scoring of app.py\<close>

text \<open>
  The readings that the scoring consumes are Python floats and ints decoded from JSON.
  A finite float is a rational number, every comparison of the source compares two such
  numbers exactly, and the thresholds that are not binary fractions (0.2) are rounded
  upwards by the float parser, so that comparing a float with them gives the same answer
  as comparing the real numbers. Readings are therefore modelled as \<^typ>\<open>real\<close> (NaN and
  the infinities, which JSON cannot carry, are outside the model), the air quality index
  and the WMO weather code as \<^typ>\<open>int\<close>, and a value that may be \<open>None\<close> as an
  \<^typ>\<open>'a option\<close>. Python strings are modelled as their UTF-8 bytes.
\<close>

subsection \<open>Python primitives used by the source\<close>

text \<open>
  \<open>v and v >= t\<close>, \<open>v and v > t\<close>, \<open>v and v < t\<close> for an optional number \<open>v\<close>. Both
  \<open>None\<close> and zero are false in Python, and the comparison is only reached for a true
  \<open>v\<close>, so that \<open>None\<close> is never compared with a number.
\<close>

definition and_ge :: "'a::{zero,ord} option \<Rightarrow> 'a \<Rightarrow> bool" where
  "and_ge v t = (case v of None \<Rightarrow> False | Some x \<Rightarrow> x \<noteq> 0 \<and> x \<ge> t)"

definition and_gt :: "'a::{zero,ord} option \<Rightarrow> 'a \<Rightarrow> bool" where
  "and_gt v t = (case v of None \<Rightarrow> False | Some x \<Rightarrow> x \<noteq> 0 \<and> x > t)"

definition and_lt :: "'a::{zero,ord} option \<Rightarrow> 'a \<Rightarrow> bool" where
  "and_lt v t = (case v of None \<Rightarrow> False | Some x \<Rightarrow> x \<noteq> 0 \<and> x < t)"

text \<open>\<open>v or 0\<close> for an optional number.\<close>

definition or_zero :: "'a::zero option \<Rightarrow> 'a" where
  "or_zero v = (case v of None \<Rightarrow> 0 | Some x \<Rightarrow> x)"

text \<open>Rounding to the nearest integer, ties to the even one, as \<open>round\<close> and the
  \<open>f\<close> format of Python do on the exact value of a float.\<close>

definition round_half_even :: "real \<Rightarrow> int" where
  "round_half_even x =
     (let f = \<lfloor>x\<rfloor>; d = x - of_int f
      in if d < 1 / 2 then f
         else if d > 1 / 2 then f + 1
         else if even f then f else f + 1)"

text \<open>\<open>round(x, 1)\<close>: the nearest multiple of one tenth, ties to the even one. The
  argument is taken exactly; the float quotient that the source rounds differs from the
  exact one by a relative error of about one part in \<open>10 ^ 16\<close>, which matters only that
  close to a tie.\<close>

definition round1 :: "real \<Rightarrow> real" where
  "round1 x = of_int (round_half_even (x * 10)) / 10"

definition digit_char :: "nat \<Rightarrow> char" where
  "digit_char n = ''0123456789'' ! (n mod 10)"

fun show_nat :: "nat \<Rightarrow> string" where
  "show_nat n = (if n < 10 then [digit_char n] else show_nat (n div 10) @ [digit_char (n mod 10)])"

declare show_nat.simps [simp del]

text \<open>\<open>str\<close> of a Python int.\<close>

definition show_int :: "int \<Rightarrow> string" where
  "show_int i = (if i < 0 then ''-'' @ show_nat (nat (- i)) else show_nat (nat i))"

definition pad_zeros :: "nat \<Rightarrow> string \<Rightarrow> string" where
  "pad_zeros d s = replicate (d - length s) (CHR ''0'') @ s"

text \<open>The format \<open>{x:.df}\<close>: \<open>d\<close> digits after the point, the last one rounded half to
  even, the sign kept also when the rounded value is zero.\<close>

definition fmt_f :: "nat \<Rightarrow> real \<Rightarrow> string" where
  "fmt_f d x =
     (let n = nat (round_half_even (\<bar>x\<bar> * 10 ^ d))
      in (if x < 0 then ''-'' else '''')
         @ show_nat (n div 10 ^ d)
         @ (if d = 0 then '''' else ''.'' @ pad_zeros d (show_nat (n mod 10 ^ d))))"

text \<open>\<open>str.lower\<close> on the ASCII letters; the other bytes are kept.\<close>

definition lower_char :: "char \<Rightarrow> char" where
  "lower_char c =
     (case map_of (zip ''ABCDEFGHIJKLMNOPQRSTUVWXYZ'' ''abcdefghijklmnopqrstuvwxyz'') c of
        None \<Rightarrow> c
      | Some l \<Rightarrow> l)"

definition lower :: "string \<Rightarrow> string" where
  "lower s = map lower_char s"

fun starts_with :: "string \<Rightarrow> string \<Rightarrow> bool" where
  "starts_with [] s = True"
| "starts_with (p # ps) [] = False"
| "starts_with (p # ps) (c # cs) = (p = c \<and> starts_with ps cs)"

text \<open>\<open>p in s\<close> for strings.\<close>

fun contains :: "string \<Rightarrow> string \<Rightarrow> bool" where
  "contains p [] = (p = [])"
| "contains p (c # cs) = (starts_with p (c # cs) \<or> contains p cs)"

subsection \<open>Configuration and readings\<close>

text \<open>One entry of \<open>RIVERS\<close>. The icon, an emoji used only by the page, is left out.\<close>

record river_config =
  site_id :: string
  location :: string
  color :: string
  action_stage :: real
  flood_stage :: real
  nwps_id :: string
  upstream_site :: "string option"
  upstream_name :: "string option"

text \<open>The dict \<open>RIVERS\<close>, in its insertion order, which is the order of iteration.\<close>

definition RIVERS :: "(string \<times> river_config) list" where
  "RIVERS =
     [(''Monongahela'',
       \<lparr>site_id = ''03085000'', location = ''Braddock'', color = ''#4FC3F7'',
        action_stage = 17, flood_stage = 25, nwps_id = ''BRKP1'',
        upstream_site = Some ''03075070'',
        upstream_name = Some ''Youghiogheny at Connellsville''\<rparr>),
      (''Allegheny'',
       \<lparr>site_id = ''03049640'', location = ''Acmetonia'', color = ''#81C784'',
        action_stage = 18, flood_stage = 25, nwps_id = ''PTBP1'',
        upstream_site = Some ''03049500'',
        upstream_name = Some ''Allegheny at Natrona''\<rparr>),
      (''Ohio'',
       \<lparr>site_id = ''03086000'', location = ''Sewickley'', color = ''#FFB74D'',
        action_stage = 16, flood_stage = 24, nwps_id = ''SEWP1'',
        upstream_site = None, upstream_name = None\<rparr>)]"

text \<open>One value of \<open>current_data\<close>, as \<open>fetch_usgs_current\<close> builds it: every key may
  be missing.\<close>

record river_data =
  timestamp :: "string option"
  flow_cfs :: "real option"
  gauge_ft :: "real option"
  temp_c :: "real option"

text \<open>
  One element of \<open>nws_alerts\<close>, as \<open>fetch_nws_alerts\<close> builds it with
  \<open>p.get("event", "")\<close> and its like: the four keys are always there, and the value of a
  key is \<open>None\<close> when the feed has a JSON \<open>null\<close> for it.
\<close>

record alert =
  event :: "string option"
  headline :: "string option"
  severity :: "string option"
  expires :: "string option"

text \<open>The module-level variables that \<open>composite_score\<close> reads.\<close>

record snapshot =
  current_data :: "string \<rightharpoonup> river_data"
  nws_alerts :: "alert list"
  wind_speed :: "real option"
  precip_prob_today :: "real option"
  precip_sum_today :: "real option"
  aqi_val :: "int option"
  visibility_mi :: "real option"
  weather_code :: "int option"

subsection \<open>Helper functions of the source\<close>

text \<open>UTF-8 of the symbols in the labels.\<close>

definition em_dash :: string where
  "em_dash = [CHR 0xE2, CHR 0x80, CHR 0x94]"

definition sym_warning :: string where
  "sym_warning = [CHR 0xE2, CHR 0x9A, CHR 0xA0]"

definition sym_triangle :: string where
  "sym_triangle = [CHR 0xE2, CHR 0x96, CHR 0xB2]"

definition sym_arrow_up :: string where
  "sym_arrow_up = [CHR 0xE2, CHR 0x86, CHR 0x91]"

definition sym_circle :: string where
  "sym_circle = [CHR 0xE2, CHR 0x97, CHR 0x8F]"

definition sym_diamond :: string where
  "sym_diamond = [CHR 0xE2, CHR 0x97, CHR 0x88]"

definition sym_cross :: string where
  "sym_cross = [CHR 0xE2, CHR 0x9C, CHR 0x95]"

definition sym_check :: string where
  "sym_check = [CHR 0xE2, CHR 0x9C, CHR 0x93]"

text \<open>\<open>stage_status(gauge, action, flood)\<close>: status, label and colour.\<close>

definition stage_status :: "real option \<Rightarrow> real \<Rightarrow> real \<Rightarrow> string \<times> string \<times> string" where
  "stage_status gauge action flood =
     (case gauge of
        None \<Rightarrow> (''unknown'', em_dash, ''#546e7a'')
      | Some g \<Rightarrow>
          if g \<ge> flood then
            (''flood'', sym_warning @ '' FLOOD STAGE ('' @ fmt_f 2 g @ '' ft)'', ''#ef5350'')
          else if g \<ge> action then
            (''action'', sym_triangle @ '' ACTION STAGE ('' @ fmt_f 2 g @ '' ft)'', ''#ffa726'')
          else if g \<ge> action - 3 then
            (''elevated'', sym_arrow_up @ '' ELEVATED ('' @ fmt_f 2 g @ '' ft)'', ''#ffcc80'')
          else
            (''normal'', sym_circle @ '' NORMAL ('' @ fmt_f 2 g @ '' ft)'', ''#66bb6a''))"

text \<open>\<open>cso_risk_from_precip(precip_24h_in, precip_prob_pct)\<close>: label, style and icon.\<close>

definition cso_risk_from_precip :: "real \<Rightarrow> real \<Rightarrow> string \<times> string \<times> string" where
  "cso_risk_from_precip precip_24h_in precip_prob_pct =
     (if precip_24h_in \<ge> 0.5 \<or> precip_prob_pct \<ge> 70 then
        (''HIGH OVERFLOW RISK'', ''alcosan-warn'', sym_triangle)
      else if precip_24h_in \<ge> 0.2 \<or> precip_prob_pct \<ge> 40 then
        (''MODERATE RISK'', ''alcosan-warn'', sym_diamond)
      else (''LOW RISK'', ''alcosan-ok'', sym_circle))"

text \<open>\<open>visibility_mi = round(visibility_m / 1609.34, 1) if visibility_m else None\<close>.\<close>

definition visibility_mi_of :: "real option \<Rightarrow> real option" where
  "visibility_mi_of visibility_m =
     (case visibility_m of
        None \<Rightarrow> None
      | Some v \<Rightarrow> if v \<noteq> 0 then Some (round1 (v / 1609.34)) else None)"

text \<open>The expression assigned to \<open>fog_risk\<close>.\<close>

definition fog_risk :: "real option \<Rightarrow> string" where
  "fog_risk vis =
     (if and_lt vis 1 then ''HIGH''
      else if and_lt vis 3 then ''MODERATE''
      else ''LOW'')"

subsection \<open>The composite conditions score\<close>

text \<open>\<open>g = current_data.get(river, {}).get("gauge_ft")\<close>.\<close>

definition gauge_reading :: "(string \<rightharpoonup> river_data) \<Rightarrow> string \<Rightarrow> real option" where
  "gauge_reading cd river = (case cd river of None \<Rightarrow> None | Some rd \<Rightarrow> gauge_ft rd)"

text \<open>
  The body of \<open>composite_score\<close> appends to the two lists \<open>issues\<close> and \<open>warnings\<close>, one
  rule after the other. Each rule is a function from the pair of lists before it to the
  pair after it, in the order of the source.
\<close>

type_synonym factors = "string list \<times> string list"

text \<open>The loop over \<open>RIVERS.items()\<close>.\<close>

fun stage_rule :: "(string \<times> river_config) list \<Rightarrow> (string \<rightharpoonup> river_data) \<Rightarrow> factors \<Rightarrow> factors" where
  "stage_rule [] cd (issues, warnings) = (issues, warnings)"
| "stage_rule ((river, cfg) # rest) cd (issues, warnings) =
     (let g = gauge_reading cd river
      in if and_ge g (flood_stage cfg) then
           stage_rule rest cd (issues @ [river @ '' at FLOOD STAGE''], warnings)
         else if and_ge g (action_stage cfg) then
           stage_rule rest cd (issues @ [river @ '' at ACTION STAGE''], warnings)
         else stage_rule rest cd (issues, warnings))"

text \<open>The exception that \<open>None.lower()\<close> raises.\<close>

datatype py_error = AttributeError

text \<open>
  The condition of the list comprehension,
  \<open>"flood" in a["event"].lower() or "flash" in a["event"].lower()\<close>: calling \<open>lower\<close> on
  \<open>None\<close> raises.
\<close>

definition flood_test :: "alert \<Rightarrow> py_error + bool" where
  "flood_test a =
     (case event a of
        None \<Rightarrow> Inl AttributeError
      | Some e \<Rightarrow> Inr (contains ''flood'' (lower e) \<or> contains ''flash'' (lower e)))"

text \<open>The list comprehension \<open>flood_alerts\<close>: it tests every alert, and the first
  exception ends it.\<close>

fun flood_alerts :: "alert list \<Rightarrow> py_error + alert list" where
  "flood_alerts [] = Inr []"
| "flood_alerts (a # rest) =
     (case flood_test a of
        Inl err \<Rightarrow> Inl err
      | Inr keep \<Rightarrow>
          (case flood_alerts rest of
             Inl err \<Rightarrow> Inl err
           | Inr found \<Rightarrow> Inr (if keep then a # found else found)))"

definition alert_rule :: "alert list \<Rightarrow> factors \<Rightarrow> py_error + factors" where
  "alert_rule alerts = (\<lambda>(issues, warnings).
     case flood_alerts alerts of
       Inl err \<Rightarrow> Inl err
     | Inr found \<Rightarrow>
         Inr (if found \<noteq> [] then (issues @ [''NWS FLOOD ALERT ACTIVE''], warnings)
              else (issues, warnings)))"

definition wind_rule :: "real option \<Rightarrow> factors \<Rightarrow> factors" where
  "wind_rule wind = (\<lambda>(issues, warnings).
     if and_gt wind 25 then
       (issues @ [''DANGEROUS WIND ('' @ fmt_f 0 (or_zero wind) @ '' mph)''], warnings)
     else if and_gt wind 15 then
       (issues, warnings @ [''HIGH WIND ('' @ fmt_f 0 (or_zero wind) @ '' mph)''])
     else (issues, warnings))"

definition precip_rule :: "real option \<Rightarrow> real option \<Rightarrow> factors \<Rightarrow> factors" where
  "precip_rule prob psum = (\<lambda>(issues, warnings).
     if or_zero prob > 70 \<or> or_zero psum > 0.5 then (issues, warnings @ [''RAIN / CSO RISK''])
     else (issues, warnings))"

definition aqi_rule :: "int option \<Rightarrow> factors \<Rightarrow> factors" where
  "aqi_rule aqi = (\<lambda>(issues, warnings).
     if and_gt aqi 150 then
       (issues @ [''POOR AIR QUALITY (AQI '' @ show_int (or_zero aqi) @ '')''], warnings)
     else if and_gt aqi 100 then
       (issues, warnings @ [''MODERATE AIR QUALITY (AQI '' @ show_int (or_zero aqi) @ '')''])
     else (issues, warnings))"

definition dense_fog :: string where
  "dense_fog = ''DENSE FOG '' @ em_dash @ '' LIMITED VISIBILITY''"

definition visibility_rule :: "real option \<Rightarrow> factors \<Rightarrow> factors" where
  "visibility_rule vis = (\<lambda>(issues, warnings).
     if and_lt vis 0.5 then (issues @ [dense_fog], warnings)
     else if and_lt vis 2 then (issues, warnings @ [''REDUCED VISIBILITY / FOG''])
     else (issues, warnings))"

definition thunder_rule :: "int option \<Rightarrow> factors \<Rightarrow> factors" where
  "thunder_rule code = (\<lambda>(issues, warnings).
     if and_ge code 95 then (issues @ [''THUNDERSTORM ACTIVE''], warnings)
     else (issues, warnings))"

text \<open>
  The two lists when the last rule has run. Nothing in \<open>composite_score\<close> catches the
  exception of the alert rule: the rules after it do not run, and the call raises.
\<close>

definition score_factors :: "snapshot \<Rightarrow> py_error + factors" where
  "score_factors s =
     (case alert_rule (nws_alerts s) (stage_rule RIVERS (current_data s) ([], [])) of
        Inl err \<Rightarrow> Inl err
      | Inr st \<Rightarrow>
          Inr (thunder_rule (weather_code s)
                (visibility_rule (visibility_mi s)
                  (aqi_rule (aqi_val s)
                    (precip_rule (precip_prob_today s) (precip_sum_today s)
                      (wind_rule (wind_speed s) st))))))"

text \<open>The value returned: label, style, icon, issues and warnings.\<close>

type_synonym score = "string \<times> string \<times> string \<times> string list \<times> string list"

text \<open>The three \<open>return\<close> statements.\<close>

definition verdict :: "factors \<Rightarrow> score" where
  "verdict = (\<lambda>(issues, warnings).
     if issues \<noteq> [] then (''STAY OFF WATER'', ''score-danger'', sym_cross, issues, warnings)
     else if warnings \<noteq> [] then (''USE CAUTION'', ''score-caution'', sym_warning, issues, warnings)
     else (''CONDITIONS FAVORABLE'', ''score-go'', sym_check, issues, warnings))"

text \<open>\<open>composite_score()\<close>: the value it returns, or the exception it raises.\<close>

definition composite_score :: "snapshot \<Rightarrow> py_error + score" where
  "composite_score s =
     (case score_factors s of Inl err \<Rightarrow> Inl err | Inr st \<Rightarrow> Inr (verdict st))"

text \<open>The names that the caller gives to the components of the result.\<close>

definition score_label :: "score \<Rightarrow> string" where
  "score_label r = fst r"

definition score_issues :: "score \<Rightarrow> string list" where
  "score_issues r = fst (snd (snd (snd r)))"

definition score_warnings :: "score \<Rightarrow> string list" where
  "score_warnings r = snd (snd (snd (snd r)))"

subsection \<open>Snapshots used as concrete inputs\<close>

text \<open>Every provider unavailable.\<close>

definition all_absent :: snapshot where
  "all_absent =
     \<lparr>current_data = Map.empty, nws_alerts = [], wind_speed = None,
      precip_prob_today = None, precip_sum_today = None, aqi_val = None,
      visibility_mi = None, weather_code = None\<rparr>"

text \<open>Every rule has data, and every rule that can raise an issue raises it.\<close>

definition flooded :: river_data where
  "flooded = \<lparr>timestamp = Some ''2024-04-12T08:00:00.000-04:00'', flow_cfs = Some 90000,
               gauge_ft = Some 30, temp_c = Some 11\<rparr>"

definition clearly_danger :: snapshot where
  "clearly_danger =
     \<lparr>current_data = [''Monongahela'' \<mapsto> flooded, ''Allegheny'' \<mapsto> flooded, ''Ohio'' \<mapsto> flooded],
      nws_alerts = [\<lparr>event = Some ''Flash Flood Warning'',
                     headline = Some ''Flash Flood Warning issued'',
                     severity = Some ''Severe'', expires = Some ''2024-04-12T14:00:00-04:00''\<rparr>],
      wind_speed = Some 30, precip_prob_today = Some 90, precip_sum_today = Some 1,
      aqi_val = Some 200, visibility_mi = Some 0.2, weather_code = Some 95\<rparr>"

text \<open>Only the Monongahela reports, exactly at its flood stage.\<close>

definition scenario_a :: snapshot where
  "scenario_a = all_absent\<lparr>current_data := [''Monongahela'' \<mapsto> flooded\<lparr>gauge_ft := Some 25\<rparr>]\<rparr>"

text \<open>Every reading absent, and one alert whose event is \<open>null\<close> in the feed.\<close>

definition null_event :: snapshot where
  "null_event =
     all_absent\<lparr>nws_alerts := [\<lparr>event = None, headline = Some ''Special Weather Statement'',
                                  severity = Some ''Minor'',
                                  expires = Some ''2024-04-12T14:00:00-04:00''\<rparr>]\<rparr>"

section \<open>Properties\<close>

subsection \<open>Auxiliary facts\<close>

lemma and_ge_Some_pos: "0 < t \<Longrightarrow> and_ge (Some (x::'a::linordered_idom)) t \<longleftrightarrow> t \<le> x"
  by (auto simp: and_ge_def)

lemma and_gt_Some_pos: "0 \<le> t \<Longrightarrow> and_gt (Some (x::'a::linordered_idom)) t \<longleftrightarrow> t < x"
  by (auto simp: and_gt_def)

lemma and_None [simp]: "and_ge None t = False" "and_gt None t = False" "and_lt None t = False"
  by (simp_all add: and_ge_def and_gt_def and_lt_def)

lemma in_set_if: "x \<in> set (if c then [y] else []) \<longleftrightarrow> c \<and> x = y"
  by auto

lemma in_set_if2:
  "x \<in> set (if c then [y] else if d then [z] else []) \<longleftrightarrow> (c \<and> x = y) \<or> (\<not> c \<and> d \<and> x = z)"
  by auto

lemma ball_set_if: "(\<forall>x\<in>set (if c then [y] else []). P x) \<longleftrightarrow> (c \<longrightarrow> P y)"
  by simp

lemma ball_set_if2:
  "(\<forall>x\<in>set (if c then [y] else if d then [z] else []). P x) \<longleftrightarrow>
     (c \<longrightarrow> P y) \<and> (\<not> c \<and> d \<longrightarrow> P z)"
  by simp

lemma filter_if: "filter P (if c then [y] else []) = (if c \<and> P y then [y] else [])"
  by simp

lemma filter_if2:
  "filter P (if c then [y] else if d then [z] else []) =
     (if c then (if P y then [y] else []) else if d then (if P z then [z] else []) else [])"
  by simp

text \<open>What each rule appends, whatever the lists were before it.\<close>

lemma stage_rule_snd: "snd (stage_rule rs cd st) = snd st"
proof (induction rs arbitrary: st)
  case Nil
  show ?case by (cases st) simp
next
  case (Cons a rs)
  obtain river cfg where a: "a = (river, cfg)" by (cases a)
  obtain i w where st: "st = (i, w)" by (cases st)
  show ?case unfolding a st by (simp add: Let_def Cons.IH)
qed

lemma stage_rule_fst:
  "fst (stage_rule rs cd st) = fst st @ concat (map
     (\<lambda>(river, cfg).
        if and_ge (gauge_reading cd river) (flood_stage cfg) then [river @ '' at FLOOD STAGE'']
        else if and_ge (gauge_reading cd river) (action_stage cfg) then [river @ '' at ACTION STAGE'']
        else []) rs)"
proof (induction rs arbitrary: st)
  case Nil
  show ?case by (cases st) simp
next
  case (Cons a rs)
  obtain river cfg where a: "a = (river, cfg)" by (cases a)
  obtain i w where st: "st = (i, w)" by (cases st)
  show ?case unfolding a st by (simp add: Let_def Cons.IH)
qed

text \<open>The comprehension raises exactly when some alert has no event text.\<close>

lemma flood_alerts_eq:
  "flood_alerts alerts =
     (if \<exists>a\<in>set alerts. event a = None then Inl AttributeError
      else Inr (filter (\<lambda>a. flood_test a = Inr True) alerts))"
proof (induction alerts)
  case Nil
  show ?case by simp
next
  case (Cons a alerts)
  show ?case
  proof (cases "event a")
    case None
    then show ?thesis by (simp add: flood_test_def)
  next
    case (Some e)
    then show ?thesis by (simp add: flood_test_def Cons.IH)
  qed
qed

lemma alert_rule_eq:
  "alert_rule alerts st =
     (if \<exists>a\<in>set alerts. event a = None then Inl AttributeError
      else Inr (fst st @ (if filter (\<lambda>a. flood_test a = Inr True) alerts \<noteq> []
                          then [''NWS FLOOD ALERT ACTIVE''] else []),
                snd st))"
  by (cases st) (simp add: alert_rule_def flood_alerts_eq)

lemma wind_rule_fst:
  "fst (wind_rule w st) = fst st @
     (if and_gt w 25 then [''DANGEROUS WIND ('' @ fmt_f 0 (or_zero w) @ '' mph)''] else [])"
  by (cases st) (simp add: wind_rule_def)

lemma wind_rule_snd:
  "snd (wind_rule w st) = snd st @
     (if \<not> and_gt w 25 \<and> and_gt w 15 then [''HIGH WIND ('' @ fmt_f 0 (or_zero w) @ '' mph)''] else [])"
  by (cases st) (simp add: wind_rule_def)

lemma precip_rule_fst: "fst (precip_rule p q st) = fst st"
  by (cases st) (simp add: precip_rule_def)

lemma precip_rule_snd:
  "snd (precip_rule p q st) = snd st @
     (if or_zero p > 70 \<or> or_zero q > 0.5 then [''RAIN / CSO RISK''] else [])"
  by (cases st) (simp add: precip_rule_def)

lemma aqi_rule_fst:
  "fst (aqi_rule a st) = fst st @
     (if and_gt a 150 then [''POOR AIR QUALITY (AQI '' @ show_int (or_zero a) @ '')''] else [])"
  by (cases st) (simp add: aqi_rule_def)

lemma aqi_rule_snd:
  "snd (aqi_rule a st) = snd st @
     (if \<not> and_gt a 150 \<and> and_gt a 100
      then [''MODERATE AIR QUALITY (AQI '' @ show_int (or_zero a) @ '')''] else [])"
  by (cases st) (simp add: aqi_rule_def)

lemma visibility_rule_fst:
  "fst (visibility_rule v st) = fst st @ (if and_lt v 0.5 then [dense_fog] else [])"
  by (cases st) (simp add: visibility_rule_def)

lemma visibility_rule_snd:
  "snd (visibility_rule v st) = snd st @
     (if \<not> and_lt v 0.5 \<and> and_lt v 2 then [''REDUCED VISIBILITY / FOG''] else [])"
  by (cases st) (simp add: visibility_rule_def)

lemma thunder_rule_fst:
  "fst (thunder_rule c st) = fst st @ (if and_ge c 95 then [''THUNDERSTORM ACTIVE''] else [])"
  by (cases st) (simp add: thunder_rule_def)

lemma thunder_rule_snd: "snd (thunder_rule c st) = snd st"
  by (cases st) (simp add: thunder_rule_def)

lemmas rule_fst = stage_rule_fst wind_rule_fst precip_rule_fst aqi_rule_fst
  visibility_rule_fst thunder_rule_fst

lemmas rule_snd = stage_rule_snd wind_rule_snd precip_rule_snd aqi_rule_snd
  visibility_rule_snd thunder_rule_snd

text \<open>When the call raises, and the two lists, rule by rule, when it returns.\<close>

lemma score_factors_raises:
  "\<exists>a\<in>set (nws_alerts s). event a = None \<Longrightarrow> score_factors s = Inl AttributeError"
  by (simp add: score_factors_def alert_rule_eq)

lemma score_factors_returns:
  assumes "\<forall>a\<in>set (nws_alerts s). event a \<noteq> None"
  shows "score_factors s = Inr
    (concat (map (\<lambda>(river, cfg).
        if and_ge (gauge_reading (current_data s) river) (flood_stage cfg) then [river @ '' at FLOOD STAGE'']
        else if and_ge (gauge_reading (current_data s) river) (action_stage cfg) then [river @ '' at ACTION STAGE'']
        else []) RIVERS)
     @ (if filter (\<lambda>a. flood_test a = Inr True) (nws_alerts s) \<noteq> []
        then [''NWS FLOOD ALERT ACTIVE''] else [])
     @ (if and_gt (wind_speed s) 25 then [''DANGEROUS WIND ('' @ fmt_f 0 (or_zero (wind_speed s)) @ '' mph)''] else [])
     @ (if and_gt (aqi_val s) 150 then [''POOR AIR QUALITY (AQI '' @ show_int (or_zero (aqi_val s)) @ '')''] else [])
     @ (if and_lt (visibility_mi s) 0.5 then [dense_fog] else [])
     @ (if and_ge (weather_code s) 95 then [''THUNDERSTORM ACTIVE''] else []),
     (if \<not> and_gt (wind_speed s) 25 \<and> and_gt (wind_speed s) 15
      then [''HIGH WIND ('' @ fmt_f 0 (or_zero (wind_speed s)) @ '' mph)''] else [])
     @ (if or_zero (precip_prob_today s) > 70 \<or> or_zero (precip_sum_today s) > 0.5 then [''RAIN / CSO RISK''] else [])
     @ (if \<not> and_gt (aqi_val s) 150 \<and> and_gt (aqi_val s) 100
        then [''MODERATE AIR QUALITY (AQI '' @ show_int (or_zero (aqi_val s)) @ '')''] else [])
     @ (if \<not> and_lt (visibility_mi s) 0.5 \<and> and_lt (visibility_mi s) 2 then [''REDUCED VISIBILITY / FOG''] else []))"
proof -
  from assms have n: "\<not> (\<exists>a\<in>set (nws_alerts s). event a = None)" by auto
  show ?thesis
    unfolding score_factors_def alert_rule_eq
    by (simp only: n if_False sum.case prod_eq_iff rule_fst rule_snd fst_conv snd_conv
        append_Nil append_assoc sum.inject simp_thms)
qed

lemma composite_score_raises:
  "\<exists>a\<in>set (nws_alerts s). event a = None \<Longrightarrow> composite_score s = Inl AttributeError"
  by (simp add: composite_score_def score_factors_raises)

lemma composite_score_returns:
  assumes "\<forall>a\<in>set (nws_alerts s). event a \<noteq> None"
  shows "\<exists>r. composite_score s = Inr r"
proof -
  from score_factors_returns [OF assms] obtain st where "score_factors s = Inr st" by blast
  then have "composite_score s = Inr (verdict st)" by (simp add: composite_score_def)
  then show ?thesis by (rule exI)
qed

lemma composite_score_Inr:
  assumes "composite_score s = Inr r"
  shows "\<forall>a\<in>set (nws_alerts s). event a \<noteq> None"
    and "\<exists>st. score_factors s = Inr st \<and> r = verdict st"
proof -
  show "\<forall>a\<in>set (nws_alerts s). event a \<noteq> None"
  proof (rule ccontr)
    assume "\<not> (\<forall>a\<in>set (nws_alerts s). event a \<noteq> None)"
    then have "\<exists>a\<in>set (nws_alerts s). event a = None" by auto
    then have "composite_score s = Inl AttributeError" by (rule composite_score_raises)
    with assms show False by simp
  qed
  from assms show "\<exists>st. score_factors s = Inr st \<and> r = verdict st"
    by (cases "score_factors s") (simp_all add: composite_score_def)
qed

lemma verdict_issues: "score_issues (verdict st) = fst st"
  by (cases st) (simp add: verdict_def score_issues_def)

lemma verdict_warnings: "score_warnings (verdict st) = snd st"
  by (cases st) (simp add: verdict_def score_warnings_def)

text \<open>The issues of a result, rule by rule.\<close>

lemma issues_explicit:
  assumes "composite_score s = Inr r"
  shows "score_issues r =
     concat (map (\<lambda>(river, cfg).
        if and_ge (gauge_reading (current_data s) river) (flood_stage cfg) then [river @ '' at FLOOD STAGE'']
        else if and_ge (gauge_reading (current_data s) river) (action_stage cfg) then [river @ '' at ACTION STAGE'']
        else []) RIVERS)
     @ (if filter (\<lambda>a. flood_test a = Inr True) (nws_alerts s) \<noteq> []
        then [''NWS FLOOD ALERT ACTIVE''] else [])
     @ (if and_gt (wind_speed s) 25 then [''DANGEROUS WIND ('' @ fmt_f 0 (or_zero (wind_speed s)) @ '' mph)''] else [])
     @ (if and_gt (aqi_val s) 150 then [''POOR AIR QUALITY (AQI '' @ show_int (or_zero (aqi_val s)) @ '')''] else [])
     @ (if and_lt (visibility_mi s) 0.5 then [dense_fog] else [])
     @ (if and_ge (weather_code s) 95 then [''THUNDERSTORM ACTIVE''] else [])"
  using assms unfolding composite_score_def score_factors_returns [OF composite_score_Inr(1) [OF assms]]
  by (auto simp: verdict_issues)

text \<open>The warnings of a result, rule by rule.\<close>

lemma warnings_explicit:
  assumes "composite_score s = Inr r"
  shows "score_warnings r =
     (if \<not> and_gt (wind_speed s) 25 \<and> and_gt (wind_speed s) 15
      then [''HIGH WIND ('' @ fmt_f 0 (or_zero (wind_speed s)) @ '' mph)''] else [])
     @ (if or_zero (precip_prob_today s) > 70 \<or> or_zero (precip_sum_today s) > 0.5 then [''RAIN / CSO RISK''] else [])
     @ (if \<not> and_gt (aqi_val s) 150 \<and> and_gt (aqi_val s) 100
        then [''MODERATE AIR QUALITY (AQI '' @ show_int (or_zero (aqi_val s)) @ '')''] else [])
     @ (if \<not> and_lt (visibility_mi s) 0.5 \<and> and_lt (visibility_mi s) 2 then [''REDUCED VISIBILITY / FOG''] else [])"
  using assms unfolding composite_score_def score_factors_returns [OF composite_score_Inr(1) [OF assms]]
  by (auto simp: verdict_warnings)

lemmas eval_defs = fmt_f_def round_half_even_def Let_def show_nat.simps show_int_def digit_char_def
  pad_zeros_def or_zero_def lower_def lower_char_def dense_fog_def em_dash_def gauge_reading_def
  and_ge_def and_gt_def and_lt_def flood_test_def

lemma clearly_danger_score:
  "composite_score clearly_danger =
     Inr (''STAY OFF WATER'', ''score-danger'', sym_cross,
          [''Monongahela at FLOOD STAGE'', ''Allegheny at FLOOD STAGE'', ''Ohio at FLOOD STAGE'',
           ''NWS FLOOD ALERT ACTIVE'', ''DANGEROUS WIND (30 mph)'', ''POOR AIR QUALITY (AQI 200)'',
           dense_fog, ''THUNDERSTORM ACTIVE''],
          [''RAIN / CSO RISK''])"
proof -
  have n: "\<forall>a\<in>set (nws_alerts clearly_danger). event a \<noteq> None"
    by (simp add: clearly_danger_def)
  show ?thesis
    unfolding composite_score_def score_factors_returns [OF n]
    by (simp add: verdict_def RIVERS_def clearly_danger_def flooded_def eval_defs)
qed

lemma clearly_danger_issues:
  "composite_score clearly_danger = Inr r \<Longrightarrow>
   score_issues r =
     [''Monongahela at FLOOD STAGE'', ''Allegheny at FLOOD STAGE'', ''Ohio at FLOOD STAGE'',
      ''NWS FLOOD ALERT ACTIVE'', ''DANGEROUS WIND (30 mph)'', ''POOR AIR QUALITY (AQI 200)'',
      dense_fog, ''THUNDERSTORM ACTIVE'']"
  by (auto simp: clearly_danger_score score_issues_def)

subsection \<open>The verdict\<close>

text \<open>
  Claim C1. For every snapshot, the value that \<open>composite_score\<close> returns has the label
  STAY OFF WATER exactly when its list of issues is not empty, the label USE CAUTION
  exactly when the issues are empty and the warnings are not, and the label CONDITIONS
  FAVORABLE exactly when both lists are empty.
\<close>

theorem composite_score_verdict:
  assumes "composite_score s = Inr r"
  shows "(score_label r = ''STAY OFF WATER'' \<longleftrightarrow> score_issues r \<noteq> [])
   \<and> (score_label r = ''USE CAUTION'' \<longleftrightarrow> score_issues r = [] \<and> score_warnings r \<noteq> [])
   \<and> (score_label r = ''CONDITIONS FAVORABLE'' \<longleftrightarrow> score_issues r = [] \<and> score_warnings r = [])"
proof -
  from composite_score_Inr(2) [OF assms] obtain st where r: "r = verdict st" by blast
  show ?thesis unfolding r
    by (cases st) (simp add: verdict_def score_label_def score_issues_def score_warnings_def)
qed

theorem composite_score_verdict_witness:
  "\<exists>r. composite_score clearly_danger = Inr r \<and> score_issues r \<noteq> []
       \<and> score_label r = ''STAY OFF WATER''"
proof -
  from clearly_danger_score obtain r where h: "composite_score clearly_danger = Inr r" by blast
  from clearly_danger_issues [OF h] have i: "score_issues r \<noteq> []" by simp
  from composite_score_verdict [OF h] i have "score_label r = ''STAY OFF WATER''" by blast
  with h i show ?thesis by blast
qed

text \<open>
  Claim C3. When no waterway has a gauge reading, the list of alerts is empty, and wind
  speed, precipitation probability, precipitation sum, AQI, visibility and weather code
  are all absent, \<open>composite_score\<close> returns CONDITIONS FAVORABLE with no issue and no
  warning.
\<close>

theorem all_absent_favorable:
  assumes "\<forall>river. gauge_reading (current_data s) river = None"
    and "nws_alerts s = []" and "wind_speed s = None"
    and "precip_prob_today s = None" and "precip_sum_today s = None"
    and "aqi_val s = None" and "visibility_mi s = None" and "weather_code s = None"
  shows "composite_score s = Inr (''CONDITIONS FAVORABLE'', ''score-go'', sym_check, [], [])"
proof -
  from assms(2) have n: "\<forall>a\<in>set (nws_alerts s). event a \<noteq> None" by simp
  show ?thesis
    unfolding composite_score_def score_factors_returns [OF n]
    using assms by (simp add: verdict_def RIVERS_def or_zero_def)
qed

theorem all_absent_favorable_witness:
  "composite_score all_absent = Inr (''CONDITIONS FAVORABLE'', ''score-go'', sym_check, [], [])"
  by (rule all_absent_favorable) (simp_all add: all_absent_def gauge_reading_def)

subsection \<open>The stage classifier and the estimators\<close>

text \<open>
  Claim C5. For every optional stage height and every pair of thresholds (in particular
  those with action below flood), \<open>stage_status\<close> returns: for an absent stage, the status
  unknown with the dash as label, whatever the thresholds; for a stage at or above the
  flood stage, flood; otherwise at or above the action stage, action; otherwise at or
  above the action stage minus 3, elevated; otherwise normal.
\<close>

theorem stage_status_cases:
  "stage_status None action flood = (''unknown'', em_dash, ''#546e7a'')
   \<and> (\<forall>g. (g \<ge> flood \<longrightarrow> fst (stage_status (Some g) action flood) = ''flood'')
        \<and> (g < flood \<and> g \<ge> action \<longrightarrow> fst (stage_status (Some g) action flood) = ''action'')
        \<and> (g < flood \<and> g < action \<and> g \<ge> action - 3 \<longrightarrow>
             fst (stage_status (Some g) action flood) = ''elevated'')
        \<and> (g < flood \<and> g < action - 3 \<longrightarrow> fst (stage_status (Some g) action flood) = ''normal''))"
  by (simp add: stage_status_def)

theorem stage_status_cases_witness:
  "(25::real) \<ge> 25 \<and> fst (stage_status (Some 25) 17 25) = ''flood''
   \<and> (15::real) < 25 \<and> (15::real) < 17 \<and> (15::real) \<ge> 17 - 3
   \<and> fst (stage_status (Some 15) 17 25) = ''elevated''"
proof -
  note c = stage_status_cases [of 17 25, THEN conjunct2]
  from c [THEN spec, of 25] have "fst (stage_status (Some 25) 17 25) = ''flood''" by simp
  moreover from c [THEN spec, of 15] have "fst (stage_status (Some 15) 17 25) = ''elevated''"
    by simp
  ultimately show ?thesis by simp
qed

text \<open>
  Claim C9. For all precipitation inputs, \<open>cso_risk_from_precip\<close> returns HIGH OVERFLOW RISK
  exactly when the 24 h sum is at least 0.5 in or the probability is at least 70 percent;
  otherwise MODERATE RISK exactly when the sum is at least 0.2 in or the probability is at
  least 40 percent; otherwise LOW RISK. A sum of 0.6 in with a probability of 10 percent
  is HIGH.
\<close>

theorem cso_risk_cases:
  "(fst (cso_risk_from_precip psum prob) = ''HIGH OVERFLOW RISK'' \<longleftrightarrow> psum \<ge> 0.5 \<or> prob \<ge> 70)
   \<and> (fst (cso_risk_from_precip psum prob) = ''MODERATE RISK'' \<longleftrightarrow>
        \<not> (psum \<ge> 0.5 \<or> prob \<ge> 70) \<and> (psum \<ge> 0.2 \<or> prob \<ge> 40))
   \<and> (fst (cso_risk_from_precip psum prob) = ''LOW RISK'' \<longleftrightarrow>
        \<not> (psum \<ge> 0.5 \<or> prob \<ge> 70) \<and> \<not> (psum \<ge> 0.2 \<or> prob \<ge> 40))"
  by (simp add: cso_risk_from_precip_def)

theorem cso_risk_cases_witness:
  "fst (cso_risk_from_precip 0.6 10) = ''HIGH OVERFLOW RISK''
   \<and> fst (cso_risk_from_precip 0.3 10) = ''MODERATE RISK''
   \<and> fst (cso_risk_from_precip 0.1 10) = ''LOW RISK''"
  using cso_risk_cases [of "0.6" 10] cso_risk_cases [of "0.3" 10] cso_risk_cases [of "0.1" 10]
  by simp

text \<open>
  Claim C6, as stated: the fog risk of a present visibility is HIGH below 0.5 mi, MODERATE
  from 0.5 mi to below 2 mi and LOW from 2 mi on, and an absent visibility is classified
  as unknown, never as LOW. The expression of the source has other thresholds and no
  class for an absent reading: 2.0 mi (3218.68 m before normalization) is not LOW,
  0.7 mi is not MODERATE, and an absent visibility is LOW.
\<close>

theorem fog_risk_counterexample:
  "fog_risk (Some 2) \<noteq> ''LOW'' \<and> fog_risk (visibility_mi_of (Some 3218.68)) \<noteq> ''LOW''
   \<and> fog_risk (Some 0.7) \<noteq> ''MODERATE'' \<and> \<not> fog_risk None \<noteq> ''LOW''"
  by (simp add: fog_risk_def and_lt_def visibility_mi_of_def round1_def round_half_even_def Let_def)

text \<open>
  Claim C6, amended. The displayed fog risk has the thresholds 1 mi and 3 mi: for a
  present visibility other than zero it is HIGH below 1 mi, MODERATE from 1 mi to below
  3 mi and LOW from 3 mi on. There is no class for an absent reading: an absent visibility
  is displayed as LOW. It is excluded from scoring: the result of \<open>composite_score\<close> then
  has neither the fog issue nor the fog warning.
\<close>

theorem fog_risk_thresholds:
  "(\<forall>v. v \<noteq> 0 \<longrightarrow>
        (v < 1 \<longrightarrow> fog_risk (Some v) = ''HIGH'')
      \<and> (1 \<le> v \<and> v < 3 \<longrightarrow> fog_risk (Some v) = ''MODERATE'')
      \<and> (3 \<le> v \<longrightarrow> fog_risk (Some v) = ''LOW''))
   \<and> fog_risk None = ''LOW''
   \<and> (\<forall>r. visibility_mi s = None \<and> composite_score s = Inr r \<longrightarrow>
        dense_fog \<notin> set (score_issues r)
      \<and> ''REDUCED VISIBILITY / FOG'' \<notin> set (score_warnings r))"
proof (intro conjI allI impI)
  fix r
  assume a: "visibility_mi s = None \<and> composite_score s = Inr r"
  then have v: "visibility_mi s = None" and h: "composite_score s = Inr r" by simp_all
  from v show "dense_fog \<notin> set (score_issues r)"
    by (simp add: issues_explicit [OF h] RIVERS_def in_set_if in_set_if2 dense_fog_def em_dash_def)
  from v show "''REDUCED VISIBILITY / FOG'' \<notin> set (score_warnings r)"
    by (simp add: warnings_explicit [OF h] in_set_if)
qed (simp_all add: fog_risk_def and_lt_def)

theorem fog_risk_thresholds_witness:
  "fog_risk (Some 1.8) = ''MODERATE'' \<and> fog_risk (Some 2) = ''MODERATE''
   \<and> fog_risk (Some 0.7) = ''HIGH'' \<and> fog_risk (Some 3) = ''LOW''
   \<and> visibility_mi all_absent = None
   \<and> (\<exists>r. composite_score all_absent = Inr r \<and> dense_fog \<notin> set (score_issues r))"
proof -
  note c = fog_risk_thresholds [of all_absent]
  note v = c [THEN conjunct1, THEN spec]
  have n: "visibility_mi all_absent = None" by (simp add: all_absent_def)
  have "\<forall>a\<in>set (nws_alerts all_absent). event a \<noteq> None" by (simp add: all_absent_def)
  then obtain r where h: "composite_score all_absent = Inr r"
    using composite_score_returns by blast
  from v [of "1.8"] have "fog_risk (Some 1.8) = ''MODERATE''" by simp
  moreover from v [of 2] have "fog_risk (Some 2) = ''MODERATE''" by simp
  moreover from v [of "0.7"] have "fog_risk (Some 0.7) = ''HIGH''" by simp
  moreover from v [of 3] have "fog_risk (Some 3) = ''LOW''" by simp
  moreover from c n h have "dense_fog \<notin> set (score_issues r)" by blast
  ultimately show ?thesis using n h by blast
qed

subsection \<open>The visibility rule\<close>

text \<open>
  Claim C7 says that for every present visibility reading the dense fog issue is added
  exactly when the visibility is below 0.5 mi. A reading of 50 m is normalized to 0.0 mi,
  which the test \<open>visibility_mi and visibility_mi < 0.5\<close> takes for a missing value: no
  issue is added and, with nothing else reported, the call returns CONDITIONS FAVORABLE
  with no issue, so that the dense fog issue is not among them.
\<close>

theorem dense_fog_missed_near_zero:
  "visibility_mi_of (Some 50) = Some 0
   \<and> composite_score (all_absent\<lparr>visibility_mi := visibility_mi_of (Some 50)\<rparr>)
       = Inr (''CONDITIONS FAVORABLE'', ''score-go'', sym_check, [], [])
   \<and> dense_fog \<notin> set (score_issues (''CONDITIONS FAVORABLE'', ''score-go'', sym_check, [], []))"
proof -
  have v: "visibility_mi_of (Some 50) = Some 0"
    by (simp add: visibility_mi_of_def round1_def round_half_even_def Let_def)
  have n: "\<forall>a\<in>set (nws_alerts (all_absent\<lparr>visibility_mi := Some 0\<rparr>)). event a \<noteq> None"
    by (simp add: all_absent_def)
  have "composite_score (all_absent\<lparr>visibility_mi := Some 0\<rparr>)
       = Inr (''CONDITIONS FAVORABLE'', ''score-go'', sym_check, [], [])"
    unfolding composite_score_def score_factors_returns [OF n]
    by (simp add: verdict_def RIVERS_def all_absent_def eval_defs)
  then show ?thesis unfolding v by (simp add: score_issues_def)
qed

text \<open>For every reading other than zero the rule is as the table of thresholds says.\<close>

lemma visibility_rule_nonzero:
  assumes "visibility_mi s = Some v" and "v \<noteq> 0" and "composite_score s = Inr r"
  shows "(dense_fog \<in> set (score_issues r) \<longleftrightarrow> v < 0.5)
       \<and> (''REDUCED VISIBILITY / FOG'' \<in> set (score_warnings r) \<longleftrightarrow> 0.5 \<le> v \<and> v < 2)"
  using assms(1,2)
  by (auto simp: issues_explicit [OF assms(3)] warnings_explicit [OF assms(3)] RIVERS_def
      in_set_if in_set_if2 dense_fog_def em_dash_def and_lt_def)

text \<open>
  Claim C10. A visibility of exactly 0 m is normalized to the absent value; then the result
  of \<open>composite_score\<close> has neither the dense fog issue nor the fog warning, the displayed
  fog risk is LOW, and both are those of a missing reading.
\<close>

theorem zero_visibility_is_absent:
  "visibility_mi_of (Some 0) = None
   \<and> (\<forall>r. composite_score (s\<lparr>visibility_mi := visibility_mi_of (Some 0)\<rparr>) = Inr r \<longrightarrow>
         dense_fog \<notin> set (score_issues r)
       \<and> ''REDUCED VISIBILITY / FOG'' \<notin> set (score_warnings r))
   \<and> fog_risk (visibility_mi_of (Some 0)) = ''LOW''
   \<and> composite_score (s\<lparr>visibility_mi := visibility_mi_of (Some 0)\<rparr>)
       = composite_score (s\<lparr>visibility_mi := visibility_mi_of None\<rparr>)
   \<and> fog_risk (visibility_mi_of (Some 0)) = fog_risk (visibility_mi_of None)"
proof -
  have z: "visibility_mi_of (Some 0) = None" by (simp add: visibility_mi_of_def)
  have n: "visibility_mi_of None = None" by (simp add: visibility_mi_of_def)
  have f: "dense_fog \<notin> set (score_issues r) \<and> ''REDUCED VISIBILITY / FOG'' \<notin> set (score_warnings r)"
    if h: "composite_score (s\<lparr>visibility_mi := None\<rparr>) = Inr r" for r
    by (simp add: issues_explicit [OF h] warnings_explicit [OF h] RIVERS_def
        in_set_if in_set_if2 dense_fog_def em_dash_def)
  show ?thesis unfolding z n using f by (simp add: fog_risk_def)
qed

theorem zero_visibility_is_absent_witness:
  "(\<exists>r. composite_score (clearly_danger\<lparr>visibility_mi := visibility_mi_of (Some 0)\<rparr>) = Inr r
        \<and> dense_fog \<notin> set (score_issues r))
   \<and> fog_risk (visibility_mi_of (Some 0)) = ''LOW''"
proof -
  note c = zero_visibility_is_absent [of clearly_danger]
  have "\<forall>a\<in>set (nws_alerts (clearly_danger\<lparr>visibility_mi := visibility_mi_of (Some 0)\<rparr>)). event a \<noteq> None"
    by (simp add: clearly_danger_def)
  then obtain r where h: "composite_score (clearly_danger\<lparr>visibility_mi := visibility_mi_of (Some 0)\<rparr>) = Inr r"
    using composite_score_returns by blast
  from c h have "dense_fog \<notin> set (score_issues r)" by blast
  with c h show ?thesis by blast
qed

subsection \<open>The wind rule\<close>

text \<open>
  Claim C8. In every result of \<open>composite_score\<close>, for a present wind speed \<open>w\<close>: above
  25 mph the dangerous wind issue is there and no wind warning; above 15 mph and at most
  25 mph the high wind warning is there and no wind issue; at most 15 mph neither is. The
  wind rule never adds to both lists, its issue is never among the warnings nor its
  warning among the issues, and an absent wind speed adds nothing.
\<close>

theorem wind_rule_exclusive:
  assumes h: "composite_score s = Inr r"
  shows "(\<forall>w. wind_speed s = Some w \<longrightarrow>
        (w > 25 \<longrightarrow>
           ''DANGEROUS WIND ('' @ fmt_f 0 w @ '' mph)'' \<in> set (score_issues r)
         \<and> (\<forall>x\<in>set (score_warnings r). \<not> starts_with ''HIGH WIND'' x))
      \<and> (15 < w \<and> w \<le> 25 \<longrightarrow>
           ''HIGH WIND ('' @ fmt_f 0 w @ '' mph)'' \<in> set (score_warnings r)
         \<and> (\<forall>x\<in>set (score_issues r). \<not> starts_with ''DANGEROUS WIND'' x))
      \<and> (w \<le> 15 \<longrightarrow>
           (\<forall>x\<in>set (score_issues r). \<not> starts_with ''DANGEROUS WIND'' x)
         \<and> (\<forall>x\<in>set (score_warnings r). \<not> starts_with ''HIGH WIND'' x)))
   \<and> (wind_speed s = None \<longrightarrow>
        (\<forall>x\<in>set (score_issues r). \<not> starts_with ''DANGEROUS WIND'' x)
      \<and> (\<forall>x\<in>set (score_warnings r). \<not> starts_with ''HIGH WIND'' x))
   \<and> \<not> ((\<exists>x\<in>set (score_issues r). starts_with ''DANGEROUS WIND'' x)
        \<and> (\<exists>x\<in>set (score_warnings r). starts_with ''HIGH WIND'' x))
   \<and> (\<forall>x\<in>set (score_issues r). \<not> starts_with ''HIGH WIND'' x)
   \<and> (\<forall>x\<in>set (score_warnings r). \<not> starts_with ''DANGEROUS WIND'' x)"
proof -
  note ie = issues_explicit [OF h] and we = warnings_explicit [OF h]
  have i: "(\<exists>x\<in>set (score_issues r). starts_with ''DANGEROUS WIND'' x)
             \<longleftrightarrow> and_gt (wind_speed s) 25"
    by (simp add: ie RIVERS_def bex_Un dense_fog_def em_dash_def split: if_splits)
  have w: "(\<exists>x\<in>set (score_warnings r). starts_with ''HIGH WIND'' x)
             \<longleftrightarrow> \<not> and_gt (wind_speed s) 25 \<and> and_gt (wind_speed s) 15"
    by (simp add: we bex_Un split: if_splits)
  have i2: "\<forall>x\<in>set (score_issues r). \<not> starts_with ''HIGH WIND'' x"
    by (simp add: ie RIVERS_def ball_Un ball_set_if ball_set_if2 dense_fog_def em_dash_def)
  have w2: "\<forall>x\<in>set (score_warnings r). \<not> starts_with ''DANGEROUS WIND'' x"
    by (simp add: we ball_Un ball_set_if)
  have mi: "wind_speed s = Some w \<Longrightarrow> w > 25 \<Longrightarrow>
      ''DANGEROUS WIND ('' @ fmt_f 0 w @ '' mph)'' \<in> set (score_issues r)" for w
    by (simp add: ie and_gt_Some_pos or_zero_def)
  have mw: "wind_speed s = Some w \<Longrightarrow> 15 < w \<Longrightarrow> w \<le> 25 \<Longrightarrow>
      ''HIGH WIND ('' @ fmt_f 0 w @ '' mph)'' \<in> set (score_warnings r)" for w
    by (simp add: we and_gt_Some_pos or_zero_def)
  from i w have ni: "\<not> and_gt (wind_speed s) 25 \<Longrightarrow>
      \<forall>x\<in>set (score_issues r). \<not> starts_with ''DANGEROUS WIND'' x" by blast
  from i w have nw: "and_gt (wind_speed s) 25 \<or> \<not> and_gt (wind_speed s) 15 \<Longrightarrow>
      \<forall>x\<in>set (score_warnings r). \<not> starts_with ''HIGH WIND'' x" by blast
  show ?thesis
  proof (intro conjI allI impI)
    show "\<not> ((\<exists>x\<in>set (score_issues r). starts_with ''DANGEROUS WIND'' x)
        \<and> (\<exists>x\<in>set (score_warnings r). starts_with ''HIGH WIND'' x))"
      using i w by blast
  qed (use i2 w2 mi mw ni nw in \<open>simp_all add: and_gt_Some_pos\<close>)
qed

theorem wind_rule_exclusive_witness:
  "wind_speed (all_absent\<lparr>wind_speed := Some 20\<rparr>) = Some 20 \<and> (15::real) < 20 \<and> (20::real) \<le> 25
   \<and> (\<exists>r. composite_score (all_absent\<lparr>wind_speed := Some 20\<rparr>) = Inr r
          \<and> ''HIGH WIND (20 mph)'' \<in> set (score_warnings r)
          \<and> \<not> (\<exists>x\<in>set (score_issues r). starts_with ''DANGEROUS WIND'' x))
   \<and> wind_speed clearly_danger = Some 30 \<and> (30::real) > 25
   \<and> (\<exists>r. composite_score clearly_danger = Inr r
          \<and> ''DANGEROUS WIND (30 mph)'' \<in> set (score_issues r)
          \<and> \<not> (\<exists>x\<in>set (score_warnings r). starts_with ''HIGH WIND'' x))"
proof -
  have f20: "fmt_f 0 20 = ''20''" and f30: "fmt_f 0 30 = ''30''"
    by (simp_all add: eval_defs)
  have w20: "wind_speed (all_absent\<lparr>wind_speed := Some 20\<rparr>) = Some 20" by simp
  have w30: "wind_speed clearly_danger = Some 30" by (simp add: clearly_danger_def)
  have "\<forall>a\<in>set (nws_alerts (all_absent\<lparr>wind_speed := Some 20\<rparr>)). event a \<noteq> None"
    by (simp add: all_absent_def)
  then obtain r1 where h1: "composite_score (all_absent\<lparr>wind_speed := Some 20\<rparr>) = Inr r1"
    using composite_score_returns by blast
  from clearly_danger_score obtain r2 where h2: "composite_score clearly_danger = Inr r2" by blast
  note a = wind_rule_exclusive [OF h1, THEN conjunct1, THEN spec, of 20]
  note b = wind_rule_exclusive [OF h2, THEN conjunct1, THEN spec, of 30]
  from a w20 have "''HIGH WIND ('' @ fmt_f 0 20 @ '' mph)'' \<in> set (score_warnings r1)
     \<and> (\<forall>x\<in>set (score_issues r1). \<not> starts_with ''DANGEROUS WIND'' x)"
    by simp
  then have 1: "''HIGH WIND (20 mph)'' \<in> set (score_warnings r1)
     \<and> \<not> (\<exists>x\<in>set (score_issues r1). starts_with ''DANGEROUS WIND'' x)"
    by (simp add: f20)
  from b w30 have "''DANGEROUS WIND ('' @ fmt_f 0 30 @ '' mph)'' \<in> set (score_issues r2)
     \<and> (\<forall>x\<in>set (score_warnings r2). \<not> starts_with ''HIGH WIND'' x)"
    by simp
  then have 2: "''DANGEROUS WIND (30 mph)'' \<in> set (score_issues r2)
     \<and> \<not> (\<exists>x\<in>set (score_warnings r2). starts_with ''HIGH WIND'' x)"
    by (simp add: f30)
  from h1 1 have e1: "\<exists>r. composite_score (all_absent\<lparr>wind_speed := Some 20\<rparr>) = Inr r
          \<and> ''HIGH WIND (20 mph)'' \<in> set (score_warnings r)
          \<and> \<not> (\<exists>x\<in>set (score_issues r). starts_with ''DANGEROUS WIND'' x)" by blast
  from h2 2 have e2: "\<exists>r. composite_score clearly_danger = Inr r
          \<and> ''DANGEROUS WIND (30 mph)'' \<in> set (score_issues r)
          \<and> \<not> (\<exists>x\<in>set (score_warnings r). starts_with ''HIGH WIND'' x)" by blast
  from w20 w30 e1 e2 show ?thesis by simp
qed

subsection \<open>The stage rule\<close>

text \<open>
  Claim C4. In every result of \<open>composite_score\<close>, for each configured waterway whose stage
  reading is present: at or above the flood stage the issue "river at FLOOD STAGE" is
  there, and it is the only factor of that river; otherwise at or above the action stage
  the issue "river at ACTION STAGE" is there, and it is the only one; both comparisons
  include the boundary. Below the action stage, the elevated band included, the river adds
  no issue, and no river ever adds a warning.
\<close>

theorem stage_rule_issues:
  assumes "(river, cfg) \<in> set RIVERS" and "gauge_reading (current_data s) river = Some g"
    and h: "composite_score s = Inr r"
  shows "(g \<ge> flood_stage cfg \<longrightarrow>
            river @ '' at FLOOD STAGE'' \<in> set (score_issues r)
          \<and> (\<forall>x\<in>set (score_issues r). starts_with river x \<longrightarrow> x = river @ '' at FLOOD STAGE''))
       \<and> (g < flood_stage cfg \<and> g \<ge> action_stage cfg \<longrightarrow>
            river @ '' at ACTION STAGE'' \<in> set (score_issues r)
          \<and> (\<forall>x\<in>set (score_issues r). starts_with river x \<longrightarrow> x = river @ '' at ACTION STAGE''))
       \<and> (g < action_stage cfg \<longrightarrow>
            (\<forall>x\<in>set (score_issues r). \<not> starts_with river x))
       \<and> (\<forall>x\<in>set (score_warnings r). \<not> starts_with river x)"
proof -
  note ie = issues_explicit [OF h] and we = warnings_explicit [OF h]
  from assms(1) consider
      (m) "river = ''Monongahela''" "flood_stage cfg = 25" "action_stage cfg = 17"
    | (a) "river = ''Allegheny''" "flood_stage cfg = 25" "action_stage cfg = 18"
    | (o) "river = ''Ohio''" "flood_stage cfg = 24" "action_stage cfg = 16"
    by (auto simp: RIVERS_def)
  then show ?thesis
  proof cases
    case m
    with assms(2) show ?thesis
      by (simp add: ie we RIVERS_def
          in_set_if in_set_if2 ball_Un ball_set_if ball_set_if2 and_ge_Some_pos dense_fog_def em_dash_def)
  next
    case a
    with assms(2) show ?thesis
      by (simp add: ie we RIVERS_def
          in_set_if in_set_if2 ball_Un ball_set_if ball_set_if2 and_ge_Some_pos dense_fog_def em_dash_def)
  next
    case o
    with assms(2) show ?thesis
      by (simp add: ie we RIVERS_def
          in_set_if in_set_if2 ball_Un ball_set_if ball_set_if2 and_ge_Some_pos dense_fog_def em_dash_def)
  qed
qed

theorem stage_rule_issues_witness:
  "(''Monongahela'',
     \<lparr>site_id = ''03085000'', location = ''Braddock'', color = ''#4FC3F7'',
      action_stage = 17, flood_stage = 25, nwps_id = ''BRKP1'',
      upstream_site = Some ''03075070'',
      upstream_name = Some ''Youghiogheny at Connellsville''\<rparr>) \<in> set RIVERS
   \<and> gauge_reading (current_data scenario_a) ''Monongahela'' = Some 25
   \<and> (\<exists>r. composite_score scenario_a = Inr r
          \<and> ''Monongahela at FLOOD STAGE'' \<in> set (score_issues r))"
proof -
  let ?cfg = "\<lparr>site_id = ''03085000'', location = ''Braddock'', color = ''#4FC3F7'',
      action_stage = 17, flood_stage = 25, nwps_id = ''BRKP1'',
      upstream_site = Some ''03075070'',
      upstream_name = Some ''Youghiogheny at Connellsville''\<rparr>"
  have r: "(''Monongahela'', ?cfg) \<in> set RIVERS" by (simp add: RIVERS_def)
  have g: "gauge_reading (current_data scenario_a) ''Monongahela'' = Some 25"
    by (simp add: scenario_a_def all_absent_def flooded_def gauge_reading_def)
  have "\<forall>a\<in>set (nws_alerts scenario_a). event a \<noteq> None"
    by (simp add: scenario_a_def all_absent_def)
  then obtain res where h: "composite_score scenario_a = Inr res"
    using composite_score_returns by blast
  from stage_rule_issues [OF r g h]
  have "''Monongahela at FLOOD STAGE'' \<in> set (score_issues res)" by simp
  with r g h show ?thesis by blast
qed

subsection \<open>Absent inputs\<close>

text \<open>
  Where the call returns, making one optional input absent leaves the alerts as they
  were, so that the call returns again, and it removes from the issues the issue of that
  input's own rule and nothing else.
\<close>

lemma absent_returns:
  assumes "composite_score s = Inr r" and "nws_alerts s' = nws_alerts s \<or> nws_alerts s' = []"
  shows "\<exists>r'. composite_score s' = Inr r'"
proof (rule composite_score_returns)
  from composite_score_Inr(1) [OF assms(1)] assms(2)
  show "\<forall>a\<in>set (nws_alerts s'). event a \<noteq> None" by auto
qed

lemma absent_gauge:
  assumes "river \<in> fst ` set RIVERS"
    and "gauge_reading cd river = None"
    and "\<forall>r. r \<noteq> river \<longrightarrow> gauge_reading cd r = gauge_reading (current_data s) r"
    and h: "composite_score s = Inr r" and h': "composite_score (s\<lparr>current_data := cd\<rparr>) = Inr r'"
  shows "score_issues r' = filter (\<lambda>i. \<not> starts_with (river @ '' at '') i) (score_issues r)"
proof -
  note ie = issues_explicit [OF h] issues_explicit [OF h']
  from assms(1) consider "river = ''Monongahela''" | "river = ''Allegheny''" | "river = ''Ohio''"
    by (auto simp: RIVERS_def)
  then show ?thesis
  proof cases
    case 1
    with assms(2,3) show ?thesis
      by (simp add: ie RIVERS_def filter_if filter_if2 dense_fog_def em_dash_def)
  next
    case 2
    with assms(2,3) show ?thesis
      by (simp add: ie RIVERS_def filter_if filter_if2 dense_fog_def em_dash_def)
  next
    case 3
    with assms(2,3) show ?thesis
      by (simp add: ie RIVERS_def filter_if filter_if2 dense_fog_def em_dash_def)
  qed
qed

lemma absent_alerts:
  assumes h: "composite_score s = Inr r" and h': "composite_score (s\<lparr>nws_alerts := []\<rparr>) = Inr r'"
  shows "score_issues r' = filter (\<lambda>i. i \<noteq> ''NWS FLOOD ALERT ACTIVE'') (score_issues r)"
  by (simp add: issues_explicit [OF h] issues_explicit [OF h'] RIVERS_def filter_if filter_if2
      dense_fog_def em_dash_def)

lemma absent_wind:
  assumes h: "composite_score s = Inr r" and h': "composite_score (s\<lparr>wind_speed := None\<rparr>) = Inr r'"
  shows "score_issues r' = filter (\<lambda>i. \<not> starts_with ''DANGEROUS WIND'' i) (score_issues r)"
  by (simp add: issues_explicit [OF h] issues_explicit [OF h'] RIVERS_def filter_if filter_if2
      dense_fog_def em_dash_def)

lemma absent_precip_prob:
  assumes h: "composite_score s = Inr r"
    and h': "composite_score (s\<lparr>precip_prob_today := None\<rparr>) = Inr r'"
  shows "score_issues r' = score_issues r"
  by (simp add: issues_explicit [OF h] issues_explicit [OF h'] RIVERS_def)

lemma absent_precip_sum:
  assumes h: "composite_score s = Inr r"
    and h': "composite_score (s\<lparr>precip_sum_today := None\<rparr>) = Inr r'"
  shows "score_issues r' = score_issues r"
  by (simp add: issues_explicit [OF h] issues_explicit [OF h'] RIVERS_def)

lemma absent_aqi:
  assumes h: "composite_score s = Inr r" and h': "composite_score (s\<lparr>aqi_val := None\<rparr>) = Inr r'"
  shows "score_issues r' = filter (\<lambda>i. \<not> starts_with ''POOR AIR QUALITY'' i) (score_issues r)"
  by (simp add: issues_explicit [OF h] issues_explicit [OF h'] RIVERS_def filter_if filter_if2
      dense_fog_def em_dash_def)

lemma absent_visibility:
  assumes h: "composite_score s = Inr r" and h': "composite_score (s\<lparr>visibility_mi := None\<rparr>) = Inr r'"
  shows "score_issues r' = filter (\<lambda>i. i \<noteq> dense_fog) (score_issues r)"
  by (simp add: issues_explicit [OF h] issues_explicit [OF h'] RIVERS_def filter_if filter_if2
      dense_fog_def em_dash_def)

lemma absent_weather_code:
  assumes h: "composite_score s = Inr r" and h': "composite_score (s\<lparr>weather_code := None\<rparr>) = Inr r'"
  shows "score_issues r' = filter (\<lambda>i. i \<noteq> ''THUNDERSTORM ACTIVE'') (score_issues r)"
  by (simp add: issues_explicit [OF h] issues_explicit [OF h'] RIVERS_def filter_if filter_if2
      dense_fog_def em_dash_def)

text \<open>
  Claim C2 says that \<open>composite_score\<close> never raises, whatever inputs are present or absent.
  The event text of an alert is one of them: \<open>fetch_nws_alerts\<close> stores \<open>None\<close> for a
  \<open>null\<close> event, and the alert rule calls \<open>lower\<close> on it. With every reading absent and one
  such alert in the list, the call raises AttributeError.
\<close>

theorem composite_score_raises_on_null_event:
  "composite_score null_event = Inl AttributeError"
  by (simp add: composite_score_def score_factors_def alert_rule_def flood_test_def
      null_event_def all_absent_def RIVERS_def gauge_reading_def)

end
